theory Spec2Isabelle
  imports Complex_Main "HOL-Library.AList"
begin

section \<open>JavaScript values shared by the provider and the factory\<close>

text \<open>
  Strings are \<open>char list\<close>. A value that may be \<open>undefined\<close> is an \<open>option\<close>, with
  \<open>None\<close> for \<open>undefined\<close>. An object whose properties hold strings (a provider
  configuration, \<open>process.env\<close>) is a map from property names to such values: a name outside
  the domain is an absent property, a name mapped to \<open>None\<close> is a property that holds
  \<open>undefined\<close>. Reading either gives \<open>undefined\<close>.
\<close>

type_synonym js_object = "string \<rightharpoonup> string option"

definition get_property :: "js_object \<Rightarrow> string \<Rightarrow> string option" where
  "get_property obj k = (case obj k of None \<Rightarrow> None | Some v \<Rightarrow> v)"

text \<open>Truthiness of a string-or-undefined value: \<open>undefined\<close> and \<open>""\<close> are falsy.\<close>

definition truthy :: "string option \<Rightarrow> bool" where
  "truthy v = (case v of None \<Rightarrow> False | Some s \<Rightarrow> s \<noteq> [])"

text \<open>What a template literal \<open>`${v}`\<close> renders for a string-or-undefined value.\<close>

definition template :: "string option \<Rightarrow> string" where
  "template v = (case v of None \<Rightarrow> ''undefined'' | Some s \<Rightarrow> s)"

text \<open>
  Error objects. \<open>message\<close>, \<open>type\<close>, \<open>error\<close> and \<open>code\<close> are the properties the
  code reads; \<open>instanceof_ProviderError\<close> records the class the factory tests with
  \<open>instanceof\<close>. The nested \<open>error.error\<close> of a structured vendor error has a \<open>type\<close> and a
  \<open>message\<close> of its own.
\<close>

datatype error_body = ErrorBody (body_type: "string option") (body_message: "string option")

record js_error =
  message :: "string option"
  type :: "string option"
  error :: "error_body option"
  code :: "string option"
  instanceof_ProviderError :: bool

definition new_Error :: "string \<Rightarrow> js_error" where
  "new_Error msg =
     \<lparr>message = Some msg, type = None, error = None, code = None,
      instanceof_ProviderError = False\<rparr>"

text \<open>
  Errors the engine raises itself (reading a property of \<open>null\<close> or \<open>undefined\<close>) are
  \<open>TypeError\<close>s: plain errors with a message, here the message V8 prints.
\<close>

definition TypeError_reading :: "string \<Rightarrow> string \<Rightarrow> js_error" where
  "TypeError_reading base prop =
     new_Error (''Cannot read properties of '' @ base @ '' (reading '' @ [CHR 0x27] @ prop @ [CHR 0x27] @ '')'')"

text \<open>
  Values \<open>JSON.parse\<close> returns. A number is kept as a rational; the provider only tests
  it for truthiness.
\<close>

datatype json =
    JNull
  | JBoolean bool
  | JNumber rat
  | JString string
  | JArray "json list"
  | JObject "(string \<times> json) list"

text \<open>
  \<open>v.k\<close> for a value and one of the keys the provider reads (\<open>tasks\<close>, \<open>subtasks\<close>,
  \<open>id\<close>, \<open>numTasks\<close>, \<open>numSubtasks\<close>, \<open>prompt\<close>): \<open>null\<close> raises, an object gives
  the property or \<open>undefined\<close>, every other value has no such property.
\<close>

fun json_property :: "json \<Rightarrow> string \<Rightarrow> js_error + json option" where
  "json_property JNull k = Inl (TypeError_reading ''null'' k)"
| "json_property (JObject props) k = Inr (map_of props k)"
| "json_property _ k = Inr None"

fun json_truthy :: "json option \<Rightarrow> bool" where
  "json_truthy None = False"
| "json_truthy (Some JNull) = False"
| "json_truthy (Some (JBoolean b)) = b"
| "json_truthy (Some (JNumber n)) = (n \<noteq> 0)"
| "json_truthy (Some (JString s)) = (s \<noteq> [])"
| "json_truthy (Some (JArray xs)) = True"
| "json_truthy (Some (JObject props)) = True"

fun isArray :: "json option \<Rightarrow> bool" where
  "isArray (Some (JArray xs)) = True"
| "isArray _ = False"

section \<open>String operations of the provider\<close>


definition toLowerCase_char :: "char \<Rightarrow> char" where
  "toLowerCase_char c =
     (case map_of (zip ''ABCDEFGHIJKLMNOPQRSTUVWXYZ'' ''abcdefghijklmnopqrstuvwxyz'') c of
        None \<Rightarrow> c
      | Some lower \<Rightarrow> lower)"

definition toLowerCase :: "string \<Rightarrow> string" where
  "toLowerCase s = map toLowerCase_char s"

fun string_includes :: "string \<Rightarrow> string \<Rightarrow> bool" where
  "string_includes [] sub = (sub = [])"
| "string_includes (c # cs) sub = (take (length sub) (c # cs) = sub \<or> string_includes cs sub)"

text \<open>
  \<open>content.match(/\{[\s\S]*\}/)\<close>, as the matched text \<open>match[0]\<close> or \<open>None\<close> for
  \<open>null\<close>. The match starts at the first \<open>{\<close>; the star is greedy and \<open>[\s\S]\<close> takes
  every character, so it ends at the last \<open>}\<close> after that brace. With no \<open>}\<close> after the
  first \<open>{\<close> there is none after a later one either, and the match fails.
\<close>

definition match_json :: "string \<Rightarrow> string option" where
  "match_json content =
     (case dropWhile (\<lambda>c. c \<noteq> CHR ''{'') content of
        [] \<Rightarrow> None
      | open_brace # rest \<Rightarrow>
          if CHR ''}'' \<in> set rest
          then Some (open_brace # rev (dropWhile (\<lambda>c. c \<noteq> CHR ''}'') (rev rest)))
          else None)"

section \<open>The Anthropic provider\<close>

text \<open>
  The private fields \<open>#client\<close> and \<open>#config\<close>, both \<open>null\<close> until \<open>initialize\<close>
  runs. The client keeps the key it was built with.
\<close>

datatype anthropic_client = Anthropic (client_apiKey: "string option")

record provider =
  client :: "anthropic_client option"
  config :: "js_object option"

definition new_AnthropicProvider :: provider where
  "new_AnthropicProvider = \<lparr>client = None, config = None\<rparr>"

text \<open>
  \<open>initialize\<close> stores the configuration, then builds the client. The vendor SDK's
  constructor is outside the repository and is a parameter; when it throws, \<open>#config\<close> is
  already set and \<open>#client\<close> stays \<open>null\<close>.
\<close>

definition initialize ::
  "(string option \<Rightarrow> js_error + anthropic_client) \<Rightarrow> js_object \<Rightarrow> provider
     \<Rightarrow> js_error option \<times> provider" where
  "initialize new_Anthropic cfg this =
     (let this1 = this\<lparr>config := Some cfg\<rparr> in
      case new_Anthropic (get_property cfg ''apiKey'') of
        Inl e \<Rightarrow> (Some e, this1)
      | Inr c \<Rightarrow> (None, this1\<lparr>client := Some c\<rparr>))"

text \<open>The vendor's reply: a list of content blocks, the text of a block possibly absent.\<close>

datatype content_block = ContentBlock (block_text: "string option")

record response =
  content :: "content_block list"

text \<open>
  \<open>await this.#client.messages.create({model: this.#config.model || ..., ...})\<close>. What the
  vendor answers is not decided by the program: \<open>reply\<close> is the settled outcome of the
  request, an error for a rejected promise. Before the request is sent, \<open>this.#client.messages\<close>
  raises on a \<open>null\<close> client, and then \<open>this.#config.model\<close> on a \<open>null\<close> configuration.
\<close>

definition messages_create :: "provider \<Rightarrow> js_error + response \<Rightarrow> js_error + response" where
  "messages_create this reply =
     (case client this of
        None \<Rightarrow> Inl (TypeError_reading ''null'' ''messages'')
      | Some c \<Rightarrow>
          (case config this of
             None \<Rightarrow> Inl (TypeError_reading ''null'' ''model'')
           | Some cfg \<Rightarrow> reply))"

text \<open>
  \<open>const content = response.content[0].text; const match = content.match(...)\<close>: an empty
  \<open>content\<close> array and a block without text both raise a \<open>TypeError\<close>.
\<close>

definition content_match :: "response \<Rightarrow> js_error + string option" where
  "content_match response =
     (case content response of
        [] \<Rightarrow> Inl (TypeError_reading ''undefined'' ''text'')
      | block # _ \<Rightarrow>
          (case block_text block of
             None \<Rightarrow> Inl (TypeError_reading ''undefined'' ''match'')
           | Some txt \<Rightarrow> Inr (match_json txt)))"

text \<open>\<open>handleError\<close>, branch by branch.\<close>

definition handleError :: "js_error \<Rightarrow> string" where
  "handleError e =
     (case (if type e = Some ''error'' then error e else None) of
        Some body \<Rightarrow>
          if body_type body = Some ''overloaded_error'' then
            ''Claude is currently experiencing high demand and is overloaded. Please wait a few minutes and try again.''
          else if body_type body = Some ''rate_limit_error'' then
            ''You have exceeded the rate limit. Please wait a few minutes before making more requests.''
          else if body_type body = Some ''invalid_request_error'' then
            ''There was an issue with the request format. If this persists, please report it as a bug.''
          else ''Claude API error: '' @ template (body_message body)
      | None \<Rightarrow>
          if (case message e of None \<Rightarrow> False | Some m \<Rightarrow> string_includes (toLowerCase m) ''timeout'') then
            ''The request to Claude timed out. Please try again.''
          else if (case message e of None \<Rightarrow> False | Some m \<Rightarrow> string_includes (toLowerCase m) ''network'') then
            ''There was a network error connecting to Claude. Please check your internet connection and try again.''
          else ''Error communicating with Claude: '' @ template (message e))"

text \<open>
  The three generation operations. \<open>JSON_parse\<close> and \<open>JSON_stringify\<close> are the engine's
  \<open>JSON.parse\<close> and \<open>JSON.stringify(task, null, 2)\<close>, parameters: the first returns the
  parsed value or raises a \<open>SyntaxError\<close>, the second returns the text (\<open>undefined\<close> for
  \<open>undefined\<close>) or raises a \<open>TypeError\<close> (a cycle, a BigInt). The arguments \<open>task\<close> and
  \<open>options\<close> are values as the caller passes them: \<open>None\<close> for \<open>undefined\<close>, \<open>JNull\<close> for
  \<open>null\<close>. The text \<open>prd\<close> is only handed to the vendor and is left out. The fixed wording
  of the prompts is left out as well; what the statements read from the arguments is kept.
\<close>

definition rewrap :: "js_error + 'a \<Rightarrow> js_error + 'a" where
  "rewrap body = (case body of Inl e \<Rightarrow> Inl (new_Error (handleError e)) | Inr v \<Rightarrow> Inr v)"

definition extract_array :: "(string \<Rightarrow> js_error + json) \<Rightarrow> string \<Rightarrow> response \<Rightarrow> js_error + json" where
  "extract_array JSON_parse field response =
     (case content_match response of
        Inl e \<Rightarrow> Inl e
      | Inr None \<Rightarrow> Inl (new_Error ''Failed to parse JSON from response'')
      | Inr (Some m) \<Rightarrow>
          (case JSON_parse m of
             Inl e \<Rightarrow> Inl e
           | Inr parsed \<Rightarrow>
               (case json_property parsed field of
                  Inl e \<Rightarrow> Inl e
                | Inr v \<Rightarrow>
                    if \<not> json_truthy v \<or> \<not> isArray v
                    then Inl (new_Error ''Invalid response format'')
                    else (case v of Some a \<Rightarrow> Inr a | None \<Rightarrow> Inl (new_Error ''Invalid response format'')))))"

text \<open>
  \<open>const { k = d } = options\<close> for a parameter declared \<open>options = {}\<close>: an
  \<open>undefined\<close> argument is replaced by the empty object, \<open>null\<close> cannot be destructured
  and raises a \<open>TypeError\<close> (with the message V8 prints), and the default \<open>d\<close> stands in for
  a property that is \<open>undefined\<close>.
\<close>

definition destructure :: "json option \<Rightarrow> string \<Rightarrow> json \<Rightarrow> js_error + json" where
  "destructure options k d =
     (case options of
        None \<Rightarrow> Inr d
      | Some JNull \<Rightarrow>
          Inl (new_Error (''Cannot destructure property '' @ [CHR 0x27] @ k @ [CHR 0x27]
                           @ '' of '' @ [CHR 0x27] @ ''options'' @ [CHR 0x27] @ '' as it is null.''))
      | Some obj \<Rightarrow>
          (case json_property obj k of
             Inl e \<Rightarrow> Inl e
           | Inr None \<Rightarrow> Inr d
           | Inr (Some v) \<Rightarrow> Inr v))"

text \<open>
  The statements of each operation that run before its \<open>try\<close>, with the values they put
  into the prompts. In \<open>generateTasks\<close>: the destructuring of \<open>options\<close>. In
  \<open>expandTask\<close>: the destructuring of \<open>options\<close>, then \<open>task.id\<close> in the system prompt,
  then \<open>JSON.stringify(task, null, 2)\<close> in the user message. In \<open>analyzeComplexity\<close>:
  \<open>JSON.stringify(task, null, 2)\<close>. An error raised here is outside the \<open>try\<close>.
\<close>

definition generateTasks_before_try :: "json option \<Rightarrow> js_error + json" where
  "generateTasks_before_try options = destructure options ''numTasks'' (JNumber 10)"

definition expandTask_before_try ::
  "(json option \<Rightarrow> js_error + string option) \<Rightarrow> json option \<Rightarrow> json option
     \<Rightarrow> js_error + (json \<times> json \<times> json option \<times> string option)" where
  "expandTask_before_try JSON_stringify task options =
     (case destructure options ''numSubtasks'' (JNumber 3) of
        Inl e \<Rightarrow> Inl e
      | Inr numSubtasks \<Rightarrow>
          (case destructure options ''prompt'' (JString []) of
             Inl e \<Rightarrow> Inl e
           | Inr prompt \<Rightarrow>
               (case (case task of
                        None \<Rightarrow> Inl (TypeError_reading ''undefined'' ''id'')
                      | Some t \<Rightarrow> json_property t ''id'') of
                  Inl e \<Rightarrow> Inl e
                | Inr task_id \<Rightarrow>
                    (case JSON_stringify task of
                       Inl e \<Rightarrow> Inl e
                     | Inr task_text \<Rightarrow> Inr (numSubtasks, prompt, task_id, task_text)))))"


text \<open>The body of each \<open>try\<close>: the vendor request and the handling of the reply.\<close>

definition generateTasks_try ::
  "(string \<Rightarrow> js_error + json) \<Rightarrow> provider \<Rightarrow> js_error + response \<Rightarrow> js_error + json" where
  "generateTasks_try JSON_parse this reply =
     (case messages_create this reply of
        Inl e \<Rightarrow> Inl e
      | Inr response \<Rightarrow> extract_array JSON_parse ''tasks'' response)"

definition expandTask_try ::
  "(string \<Rightarrow> js_error + json) \<Rightarrow> provider \<Rightarrow> js_error + response \<Rightarrow> js_error + json" where
  "expandTask_try JSON_parse this reply =
     (case messages_create this reply of
        Inl e \<Rightarrow> Inl e
      | Inr response \<Rightarrow> extract_array JSON_parse ''subtasks'' response)"


text \<open>
  The operations: the statements before the \<open>try\<close>, whose errors leave the operation as
  they are, then the \<open>try\<close>, whose \<open>catch\<close> throws \<open>new Error(this.handleError(error))\<close>.
\<close>

definition generateTasks ::
  "(string \<Rightarrow> js_error + json) \<Rightarrow> provider \<Rightarrow> json option \<Rightarrow> js_error + response
     \<Rightarrow> js_error + json" where
  "generateTasks JSON_parse this options reply =
     (case generateTasks_before_try options of
        Inl e \<Rightarrow> Inl e
      | Inr numTasks \<Rightarrow> rewrap (generateTasks_try JSON_parse this reply))"

definition expandTask ::
  "(string \<Rightarrow> js_error + json) \<Rightarrow> (json option \<Rightarrow> js_error + string option) \<Rightarrow> provider
     \<Rightarrow> json option \<Rightarrow> json option \<Rightarrow> js_error + response \<Rightarrow> js_error + json" where
  "expandTask JSON_parse JSON_stringify this task options reply =
     (case expandTask_before_try JSON_stringify task options of
        Inl e \<Rightarrow> Inl e
      | Inr prompts \<Rightarrow> rewrap (expandTask_try JSON_parse this reply))"


text \<open>
  \<open>isAvailable\<close> of the Anthropic provider: the whole body is inside \<open>try\<close>, and the
  \<open>catch\<close> returns \<open>false\<close>. The result type still has room for a raised error, so that
  "never throws" is a theorem and not a typing convention.
\<close>

definition isAvailable :: "provider \<Rightarrow> js_error + response \<Rightarrow> js_error + bool" where
  "isAvailable this reply =
     (case (if \<not> truthy (case config this of None \<Rightarrow> None | Some cfg \<Rightarrow> get_property cfg ''apiKey'')
            then Inr False
            else (case messages_create this reply of
                    Inl e \<Rightarrow> Inl e
                  | Inr _ \<Rightarrow> Inr True))
      of Inl err \<Rightarrow> Inr False
       | Inr b \<Rightarrow> Inr b)"

text \<open>\<open>isAvailable\<close> of the abstract base class: \<open>try { return true } catch { return false }\<close>.\<close>

definition AIProvider_isAvailable :: "js_error + bool" where
  "AIProvider_isAvailable = (case (Inr True :: js_error + bool) of Inl err \<Rightarrow> Inr False | Inr b \<Rightarrow> Inr b)"


text \<open>
  Sample inputs for evaluating the provider: a provider after a successful \<open>initialize\<close>,
  and a vendor reply made of one text block.
\<close>

definition initialized_provider :: provider where
  "initialized_provider =
     \<lparr>client = Some (Anthropic (Some ''sk-test'')),
      config = Some [''apiKey'' \<mapsto> Some ''sk-test'']\<rparr>"

definition text_reply :: "string \<Rightarrow> js_error + response" where
  "text_reply s = Inr \<lparr>content = [ContentBlock (Some s)]\<rparr>"

text \<open>
  A sample task, the empty object, and \<open>JSON.stringify(task, null, 2)\<close> on the sample
  arguments: \<open>undefined\<close> for \<open>undefined\<close>, the text \<open>{}\<close> for the sample task.
\<close>

definition sample_task :: "json option" where
  "sample_task = Some (JObject [])"

definition stringify_sample :: "json option \<Rightarrow> js_error + string option" where
  "stringify_sample task = (case task of None \<Rightarrow> Inr None | Some t \<Rightarrow> Inr (Some ''{}''))"





text \<open>A structured vendor error, as the vendor sends it when overloaded.\<close>

definition overloaded_error :: js_error where
  "overloaded_error =
     \<lparr>message = Some ''Overloaded'', type = Some ''error'',
      error = Some (ErrorBody (Some ''overloaded_error'') (Some ''Overloaded'')),
      code = None, instanceof_ProviderError = False\<rparr>"


text \<open>
  The extraction as the specification words it: "the first \<open>{\<close> and the matching \<open>}\<close>
  that closes the outermost JSON object". \<open>balanced_end depth cs\<close> is the text up to the
  brace that closes the object opened before \<open>cs\<close>, with \<open>depth\<close> further objects open.
  This definition follows the specification, not the source; it is compared with
  \<open>match_json\<close> below.
\<close>

fun balanced_end :: "nat \<Rightarrow> string \<Rightarrow> string option" where
  "balanced_end depth [] = None"
| "balanced_end depth (c # cs) =
     (if c = CHR ''{'' then map_option ((#) c) (balanced_end (Suc depth) cs)
      else if c = CHR ''}'' then
        (case depth of 0 \<Rightarrow> Some [c] | Suc d \<Rightarrow> map_option ((#) c) (balanced_end d cs))
      else map_option ((#) c) (balanced_end depth cs))"

definition first_balanced_region :: "string \<Rightarrow> string option" where
  "first_balanced_region s =
     (case dropWhile (\<lambda>c. c \<noteq> CHR ''{'') s of
        [] \<Rightarrow> None
      | open_brace # rest \<Rightarrow> map_option ((#) open_brace) (balanced_end 0 rest))"


text \<open>
  Sample texts: the JSON text \<open>{"tasks":[]}\<close>, a reply that wraps it in prose, and a
  reply with a stray closing brace after it. \<open>parse_tasks_json\<close> stands for \<open>JSON.parse\<close>
  on these samples: it parses the one JSON text and rejects every other text, as
  \<open>JSON.parse\<close> rejects the two replies; the message of the \<open>SyntaxError\<close> is a stand-in.
\<close>

definition tasks_json :: string where
  "tasks_json = ''{'' @ [CHR 0x22] @ ''tasks'' @ [CHR 0x22] @ '':[]}''"

definition parse_tasks_json :: "string \<Rightarrow> js_error + json" where
  "parse_tasks_json s =
     (if s = tasks_json then Inr (JObject [(''tasks'', JArray [])])
      else Inl (new_Error ''Unexpected token''))"

definition reply_with_tasks :: string where
  "reply_with_tasks = ''Here: '' @ tasks_json @ '' Done.''"

definition reply_with_stray_brace :: string where
  "reply_with_stray_brace = tasks_json @ '' and }''"

section \<open>The task identifier validator\<close>

text \<open>
  A JavaScript value as the validator may receive it: it is specified for every input, not
  only for strings.
\<close>

datatype js_value = Undefined | Null | Boolean bool | Number rat | String string | Object js_object

definition is_digit :: "char \<Rightarrow> bool" where
  "is_digit c = (c \<in> set ''0123456789'')"


text \<open>
  Modelled from the spec: \<open>isValidTaskId\<close> is not among the sources, which hold only the
  ticket that asks for it. The definition follows the contract of the specification: the
  input is a string, it begins with the literal \<open>TASK-\<close>, what follows is a numeral of at
  least one digit with no leading zero unless it is the single digit \<open>0\<close>, and the whole
  string has between 6 and 12 characters. Every other input gives \<open>false\<close>.
\<close>

definition isValidTaskId :: "js_value \<Rightarrow> bool" where
  "isValidTaskId input =
     (case input of
        String s \<Rightarrow>
          take 5 s = ''TASK-''
          \<and> (case drop 5 s of
                [] \<Rightarrow> False
              | d # ds \<Rightarrow> list_all is_digit (d # ds) \<and> (if d = CHR ''0'' then ds = [] else True))
          \<and> 6 \<le> length s \<and> length s \<le> 12
      | _ \<Rightarrow> False)"


text \<open>
  Regular expressions with their languages, for the pattern
  \<open>^TASK-(0|[1-9][0-9]*)$\<close> of the specification; the anchors make the match a match of
  the whole string, which is membership in the language.
\<close>

datatype regex =
    Chars string
  | OneOf string
  | Seq regex regex
  | Alt regex regex
  | Star regex

inductive_set star :: "string set \<Rightarrow> string set" for A :: "string set" where
  star_empty: "[] \<in> star A"
| star_step: "u \<in> A \<Longrightarrow> v \<in> star A \<Longrightarrow> u @ v \<in> star A"

fun lang :: "regex \<Rightarrow> string set" where
  "lang (Chars s) = {s}"
| "lang (OneOf cs) = {[c] | c. c \<in> set cs}"
| "lang (Seq r1 r2) = {u @ v | u v. u \<in> lang r1 \<and> v \<in> lang r2}"
| "lang (Alt r1 r2) = lang r1 \<union> lang r2"
| "lang (Star r) = star (lang r)"

definition task_id_regex :: regex where
  "task_id_regex =
     Seq (Chars ''TASK-'')
         (Alt (Chars ''0'') (Seq (OneOf ''123456789'') (Star (OneOf ''0123456789''))))"

section \<open>The provider factory\<close>

text \<open>
  A provider instance is known to the factory by its identity only; two references are the
  same object when the identities are equal.
\<close>

type_synonym instance_id = nat

text \<open>
  What the factory calls but does not define: the environment variables, the dynamic
  \<open>import\<close> of a provider module (giving its default export), \<open>new ProviderClass()\<close>, and
  the \<open>initialize\<close> and \<open>isAvailable\<close> methods of an instance. Each call may raise, and
  each may change the world outside the factory (the objects' private state, the network),
  which is threaded through as \<open>'w\<close>.
\<close>

record ('w, 'c) host =
  process_env :: "string \<rightharpoonup> string"
  import_module :: "string \<Rightarrow> 'w \<Rightarrow> (js_error + 'c) \<times> 'w"
  new_instance :: "'c \<Rightarrow> 'w \<Rightarrow> (js_error + instance_id) \<times> 'w"
  instance_initialize :: "instance_id \<Rightarrow> js_object option \<Rightarrow> 'w \<Rightarrow> (js_error + unit) \<times> 'w"
  instance_isAvailable :: "instance_id \<Rightarrow> 'w \<Rightarrow> (js_error + bool) \<times> 'w"

text \<open>
  The static state: the \<open>Map\<close> of instances, in insertion order, as an association list
  (\<open>set\<close> replaces the entry of a key or appends a new one, \<open>delete\<close> removes it), the
  lines written with \<open>console.warn\<close>, and the world outside.
\<close>

record 'w factory =
  instances :: "(string \<times> instance_id) list"
  console :: "string list"
  world :: 'w

definition initial_factory :: "'w \<Rightarrow> 'w factory" where
  "initial_factory w = \<lparr>instances = [], console = [], world = w\<rparr>"

definition SUPPORTED_PROVIDERS :: "string list" where
  "SUPPORTED_PROVIDERS = [''anthropic'', ''google'']"

definition ProviderError :: "string \<Rightarrow> string \<Rightarrow> js_error" where
  "ProviderError msg c =
     \<lparr>message = Some msg, type = None, error = None, code = Some c,
      instanceof_ProviderError = True\<rparr>"

fun join :: "string list \<Rightarrow> string \<Rightarrow> string" where
  "join [] sep = []"
| "join [x] sep = x"
| "join (x # y # ys) sep = x @ sep @ join (y # ys) sep"

definition validateProviderType :: "string \<Rightarrow> js_error + unit" where
  "validateProviderType t =
     (if t \<notin> set SUPPORTED_PROVIDERS
      then Inl (ProviderError
                 (''Provider type '' @ [CHR 0x27] @ t @ [CHR 0x27]
                    @ '' not supported. Must be one of: '' @ join SUPPORTED_PROVIDERS '', '')
                 ''INVALID_PROVIDER'')
      else Inr ())"

definition validateConfig :: "js_object option \<Rightarrow> string \<Rightarrow> js_error + unit" where
  "validateConfig cfg t =
     (if \<not> truthy (case cfg of None \<Rightarrow> None | Some obj \<Rightarrow> get_property obj ''apiKey'')
      then Inl (ProviderError (''API key is required for '' @ t @ '' provider'') ''INVALID_CONFIG'')
      else Inr ())"

text \<open>
  \<open>getProvider\<close>, in the three parts of its \<open>try\<close> block after the two validations. First
  the cached instance: returned when its probe succeeds, deleted when the probe fails.
\<close>

definition probe_cached ::
  "('w, 'c) host \<Rightarrow> string \<Rightarrow> 'w factory \<Rightarrow> (js_error + instance_id option) \<times> 'w factory" where
  "probe_cached h t s =
     (case map_of (instances s) t of
        None \<Rightarrow> (Inr None, s)
      | Some provider \<Rightarrow>
          (case instance_isAvailable h provider (world s) of
             (Inl e, w) \<Rightarrow> (Inl e, s\<lparr>world := w\<rparr>)
           | (Inr available, w) \<Rightarrow>
               if available then (Inr (Some provider), s\<lparr>world := w\<rparr>)
               else (Inr None, s\<lparr>instances := AList.delete t (instances s), world := w\<rparr>)))"

text \<open>Then the module, with its own \<open>try\<close> that rewraps a failed import.\<close>

definition load_provider_class ::
  "('w, 'c) host \<Rightarrow> string \<Rightarrow> 'w factory \<Rightarrow> (js_error + 'c) \<times> 'w factory" where
  "load_provider_class h t s =
     (case import_module h (''./'' @ t @ ''/'' @ t @ ''Provider.js'') (world s) of
        (Inl e, w) \<Rightarrow>
          (Inl (ProviderError
                 (''Failed to load '' @ t @ '' provider module: '' @ template (message e))
                 ''MODULE_LOAD_ERROR''),
           s\<lparr>world := w\<rparr>)
      | (Inr ProviderClass, w) \<Rightarrow> (Inr ProviderClass, s\<lparr>world := w\<rparr>))"

text \<open>Then construction, initialization, the second probe, and the insertion into the cache.\<close>

definition create_provider ::
  "('w, 'c) host \<Rightarrow> string \<Rightarrow> js_object option \<Rightarrow> 'c \<Rightarrow> 'w factory
     \<Rightarrow> (js_error + instance_id) \<times> 'w factory" where
  "create_provider h t cfg ProviderClass s =
     (case new_instance h ProviderClass (world s) of
        (Inl e, w1) \<Rightarrow> (Inl e, s\<lparr>world := w1\<rparr>)
      | (Inr provider, w1) \<Rightarrow>
          (case instance_initialize h provider cfg w1 of
             (Inl e, w2) \<Rightarrow>
               (Inl (ProviderError
                      (''Failed to initialize '' @ t @ '' provider: '' @ template (message e))
                      ''INIT_ERROR''),
                s\<lparr>world := w2\<rparr>)
           | (Inr u, w2) \<Rightarrow>
               (case instance_isAvailable h provider w2 of
                  (Inl e, w3) \<Rightarrow> (Inl e, s\<lparr>world := w3\<rparr>)
                | (Inr available, w3) \<Rightarrow>
                    if \<not> available
                    then (Inl (ProviderError
                                (t @ '' provider is not available after initialization'')
                                ''PROVIDER_UNAVAILABLE''),
                          s\<lparr>world := w3\<rparr>)
                    else (Inr provider,
                          s\<lparr>instances := AList.update t provider (instances s), world := w3\<rparr>))))"

definition getProvider_try ::
  "('w, 'c) host \<Rightarrow> string \<Rightarrow> js_object option \<Rightarrow> 'w factory
     \<Rightarrow> (js_error + instance_id) \<times> 'w factory" where
  "getProvider_try h t cfg s =
     (case validateProviderType t of
        Inl e \<Rightarrow> (Inl e, s)
      | Inr u \<Rightarrow>
          (case validateConfig cfg t of
             Inl e \<Rightarrow> (Inl e, s)
           | Inr u \<Rightarrow>
               (case probe_cached h t s of
                  (Inl e, s1) \<Rightarrow> (Inl e, s1)
                | (Inr (Some provider), s1) \<Rightarrow> (Inr provider, s1)
                | (Inr None, s1) \<Rightarrow>
                    (case load_provider_class h t s1 of
                       (Inl e, s2) \<Rightarrow> (Inl e, s2)
                     | (Inr ProviderClass, s2) \<Rightarrow> create_provider h t cfg ProviderClass s2))))"

text \<open>The outer \<open>catch\<close>: an error that is not a \<open>ProviderError\<close> is rewrapped.\<close>

definition getProvider ::
  "('w, 'c) host \<Rightarrow> string \<Rightarrow> js_object option \<Rightarrow> 'w factory
     \<Rightarrow> (js_error + instance_id) \<times> 'w factory" where
  "getProvider h t cfg s =
     (case getProvider_try h t cfg s of
        (Inl e, s') \<Rightarrow>
          if \<not> instanceof_ProviderError e
          then (Inl (ProviderError
                      (''Unexpected error creating '' @ t @ '' provider: '' @ template (message e))
                      ''UNKNOWN_ERROR''),
                s')
          else (Inl e, s')
      | (Inr provider, s') \<Rightarrow> (Inr provider, s'))"

definition clearInstances :: "'w factory \<Rightarrow> 'w factory" where
  "clearInstances s = s\<lparr>instances := []\<rparr>"

text \<open>\<open>console.warn\<close> appends a line.\<close>

definition console_warn :: "string \<Rightarrow> 'w factory \<Rightarrow> 'w factory" where
  "console_warn line s = s\<lparr>console := console s @ [line]\<rparr>"

text \<open>\<open>String.prototype.toUpperCase\<close>, on ASCII text.\<close>

definition toUpperCase_char :: "char \<Rightarrow> char" where
  "toUpperCase_char c =
     (case map_of (zip ''abcdefghijklmnopqrstuvwxyz'' ''ABCDEFGHIJKLMNOPQRSTUVWXYZ'') c of
        None \<Rightarrow> c
      | Some upper \<Rightarrow> upper)"

definition toUpperCase :: "string \<Rightarrow> string" where
  "toUpperCase s = map toUpperCase_char s"

text \<open>
  The configuration \<open>getBestProvider\<close> and \<open>getAllProviders\<close> build for a type:
  \<open>{apiKey: process.env[TYPE_API_KEY], model: process.env[TYPE_MODEL], ...config[type]}\<close>.
  The properties of \<open>config[type]\<close>, when it exists, replace those read from the
  environment.
\<close>

definition provider_config ::
  "('w, 'c) host \<Rightarrow> (string \<rightharpoonup> js_object) \<Rightarrow> string \<Rightarrow> js_object" where
  "provider_config h cfg t =
     [''apiKey'' \<mapsto> process_env h (toUpperCase t @ ''_API_KEY''),
      ''model'' \<mapsto> process_env h (toUpperCase t @ ''_MODEL'')]
     ++ (case cfg t of None \<Rightarrow> Map.empty | Some overrides \<Rightarrow> overrides)"

text \<open>
  The loop of \<open>getBestProvider\<close> over the types in order of preference, with the
  \<open>throw\<close> that follows it when no type succeeded.
\<close>

fun try_each ::
  "('w, 'c) host \<Rightarrow> (string \<rightharpoonup> js_object) \<Rightarrow> string list \<Rightarrow> 'w factory
     \<Rightarrow> (js_error + instance_id) \<times> 'w factory" where
  "try_each h cfg [] s =
     (Inl (ProviderError
            ''No AI providers are available. Please check your configuration and API keys.''
            ''NO_PROVIDERS''),
      s)"
| "try_each h cfg (t # ts) s =
     (case getProvider h t (Some (provider_config h cfg t)) s of
        (Inr provider, s') \<Rightarrow> (Inr provider, s')
      | (Inl e, s') \<Rightarrow>
          try_each h cfg ts
            (console_warn (''Failed to initialize '' @ t @ '' provider: '' @ template (message e)) s'))"

definition getBestProvider ::
  "('w, 'c) host \<Rightarrow> (string \<rightharpoonup> js_object) \<Rightarrow> 'w factory
     \<Rightarrow> (js_error + instance_id) \<times> 'w factory" where
  "getBestProvider h cfg s =
     (case process_env h ''AI_PROVIDER'' of
        None \<Rightarrow> try_each h cfg [''anthropic'', ''google''] s
      | Some preferredType \<Rightarrow>
          if preferredType = [] then try_each h cfg [''anthropic'', ''google''] s
          else
            (case getProvider h preferredType (Some (provider_config h cfg preferredType)) s of
               (Inr provider, s') \<Rightarrow> (Inr provider, s')
             | (Inl e, s') \<Rightarrow>
                 try_each h cfg [''anthropic'', ''google'']
                   (console_warn
                      (''Failed to initialize preferred provider ('' @ preferredType @ ''): ''
                         @ template (message e)) s')))"

text \<open>
  The loop of \<open>getAllProviders\<close>, filling a fresh \<open>Map\<close>; the function then returns
  the map.
\<close>

fun collect_providers ::
  "('w, 'c) host \<Rightarrow> (string \<rightharpoonup> js_object) \<Rightarrow> string list \<Rightarrow> (string \<times> instance_id) list
     \<Rightarrow> 'w factory \<Rightarrow> (string \<times> instance_id) list \<times> 'w factory" where
  "collect_providers h cfg [] providers s = (providers, s)"
| "collect_providers h cfg (t # ts) providers s =
     (case getProvider h t (Some (provider_config h cfg t)) s of
        (Inr provider, s') \<Rightarrow> collect_providers h cfg ts (AList.update t provider providers) s'
      | (Inl e, s') \<Rightarrow>
          collect_providers h cfg ts providers
            (console_warn (''Failed to initialize '' @ t @ '' provider: '' @ template (message e)) s'))"

definition getAllProviders ::
  "('w, 'c) host \<Rightarrow> (string \<rightharpoonup> js_object) \<Rightarrow> 'w factory
     \<Rightarrow> (js_error + (string \<times> instance_id) list) \<times> 'w factory" where
  "getAllProviders h cfg s =
     (case collect_providers h cfg SUPPORTED_PROVIDERS [] s of
        (providers, s') \<Rightarrow> (Inr providers, s'))"

text \<open>
  The states the factory can be in: it starts with an empty cache, every public operation
  takes it from one state to the next, and the world outside may change between calls.
\<close>

inductive reachable :: "('w, 'c) host \<Rightarrow> 'w factory \<Rightarrow> bool" for h :: "('w, 'c) host" where
  reachable_initial: "reachable h (initial_factory w)"
| reachable_getProvider:
    "reachable h s \<Longrightarrow> getProvider h t cfg s = (r, s') \<Longrightarrow> reachable h s'"
| reachable_getBestProvider:
    "reachable h s \<Longrightarrow> getBestProvider h cfgs s = (r, s') \<Longrightarrow> reachable h s'"
| reachable_getAllProviders:
    "reachable h s \<Longrightarrow> getAllProviders h cfgs s = (ps, s') \<Longrightarrow> reachable h s'"
| reachable_clearInstances: "reachable h s \<Longrightarrow> reachable h (clearInstances s)"
| reachable_world: "reachable h s \<Longrightarrow> reachable h (s\<lparr>world := w\<rparr>)"

text \<open>
  For stating what \<open>getAllProviders\<close> does with each attempt: the \<open>catch\<close> logs a
  warning for a failed one, and a successful one contributes its entry to the result.
\<close>

definition after_attempt :: "string \<Rightarrow> js_error + instance_id \<Rightarrow> 'w factory \<Rightarrow> 'w factory" where
  "after_attempt t r s =
     (case r of
        Inl e \<Rightarrow> console_warn (''Failed to initialize '' @ t @ '' provider: '' @ template (message e)) s
      | Inr p \<Rightarrow> s)"

definition collected :: "string \<Rightarrow> js_error + instance_id \<Rightarrow> (string \<times> instance_id) list" where
  "collected t r = (case r of Inl e \<Rightarrow> [] | Inr p \<Rightarrow> [(t, p)])"

text \<open>
  Sample hosts for evaluating the factory: the environment variables and the list of module
  paths that load are given; \<open>new\<close> hands out the next free identity, \<open>initialize\<close>
  succeeds and every probe answers \<open>true\<close>.
\<close>

definition host_with :: "(string \<rightharpoonup> string) \<Rightarrow> string list \<Rightarrow> (nat, string) host" where
  "host_with env modules =
     \<lparr>process_env = env,
      import_module = (\<lambda>path w.
         if path \<in> set modules then (Inr path, w)
         else (Inl (new_Error ''Cannot find module''), w)),
      new_instance = (\<lambda>cls w. (Inr w, Suc w)),
      instance_initialize = (\<lambda>p cfg w. (Inr (), w)),
      instance_isAvailable = (\<lambda>p w. (Inr True, w))\<rparr>"

definition sample_host :: "(nat, string) host" where
  "sample_host =
     host_with [''ANTHROPIC_API_KEY'' \<mapsto> ''sk-test''] [''./anthropic/anthropicProvider.js'']"

definition bare_host :: "(nat, string) host" where
  "bare_host = host_with Map.empty []"


definition sample_config :: js_object where
  "sample_config = [''apiKey'' \<mapsto> Some ''sk-test'']"

section \<open>The regular expression match\<close>

lemma dropWhile_until_first: "x \<notin> set a \<Longrightarrow> dropWhile (\<lambda>c. c \<noteq> x) (a @ x # r) = x # r"
  by (induction a) auto

lemma match_json_Some:
  assumes "txt = a @ CHR ''{'' # b @ CHR ''}'' # c" "CHR ''{'' \<notin> set a" "CHR ''}'' \<notin> set c"
  shows "match_json txt = Some (CHR ''{'' # b @ ''}'')"
proof -
  have d: "dropWhile (\<lambda>x. x \<noteq> CHR ''{'') txt = CHR ''{'' # b @ CHR ''}'' # c"
    using assms(1,2) by (simp add: dropWhile_until_first)
  have "CHR ''}'' \<notin> set (rev c)"
    using assms(3) by simp
  then have "dropWhile (\<lambda>x. x \<noteq> CHR ''}'') (rev c @ CHR ''}'' # rev b) = CHR ''}'' # rev b"
    by (rule dropWhile_until_first)
  then show ?thesis
    by (simp add: match_json_def d)
qed

lemma match_json_SomeD:
  assumes "match_json txt = Some m"
  shows "\<exists>a b c. txt = a @ CHR ''{'' # b @ CHR ''}'' # c \<and> CHR ''{'' \<notin> set a
           \<and> CHR ''}'' \<notin> set c \<and> m = CHR ''{'' # b @ ''}''"
proof -
  let ?P = "\<lambda>c. c \<noteq> CHR ''{''"
  obtain ob rest where d: "dropWhile ?P txt = ob # rest" and r: "CHR ''}'' \<in> set rest"
    using assms by (auto simp: match_json_def split: list.splits if_splits)
  have "\<not> ?P (hd (dropWhile ?P txt))"
    by (rule hd_dropWhile) (simp add: d)
  then have ob: "ob = CHR ''{''"
    using d by simp
  have t: "txt = takeWhile ?P txt @ CHR ''{'' # rest"
    using takeWhile_dropWhile_id [of "?P" "txt"] d ob by simp
  have a: "CHR ''{'' \<notin> set (takeWhile ?P txt)"
    using set_takeWhileD by fastforce
  obtain b c where bc: "rest = b @ CHR ''}'' # c" "CHR ''}'' \<notin> set c"
    using split_list_last [OF r] by blast
  have t': "txt = takeWhile ?P txt @ CHR ''{'' # b @ CHR ''}'' # c"
    using t bc(1) by simp
  have "match_json txt = Some (CHR ''{'' # b @ ''}'')"
    by (rule match_json_Some [OF t' a bc(2)])
  with assms have "m = CHR ''{'' # b @ ''}''" by simp
  with t' a bc(2) show ?thesis by blast
qed




section \<open>The statements before the try\<close>

lemma destructure_not_null:
  "options \<noteq> Some JNull \<Longrightarrow> \<exists>v. destructure options k d = Inr v"
  unfolding destructure_def
  by (cases options; cases "the options") (auto split: option.splits)

lemma json_property_not_null: "t \<noteq> JNull \<Longrightarrow> \<exists>v. json_property t k = Inr v"
  by (cases t) auto

lemma generateTasks_after_before_try:
  assumes "options \<noteq> Some JNull"
  shows "generateTasks JSON_parse this options reply = rewrap (generateTasks_try JSON_parse this reply)"
  using destructure_not_null [OF assms, of "''numTasks''" "JNumber 10"]
  by (auto simp: generateTasks_def generateTasks_before_try_def)

lemma expandTask_after_before_try:
  assumes "options \<noteq> Some JNull" "task \<noteq> None" "task \<noteq> Some JNull"
    and "JSON_stringify task = Inr task_text"
  shows "expandTask JSON_parse JSON_stringify this task options reply
           = rewrap (expandTask_try JSON_parse this reply)"
proof -
  obtain n where n: "destructure options ''numSubtasks'' (JNumber 3) = Inr n"
    using destructure_not_null [OF assms(1)] by blast
  obtain q where q: "destructure options ''prompt'' (JString []) = Inr q"
    using destructure_not_null [OF assms(1)] by blast
  obtain t where t: "task = Some t" "t \<noteq> JNull"
    using assms(2,3) by (cases task) auto
  obtain i where i: "json_property t ''id'' = Inr i"
    using json_property_not_null [OF t(2)] by blast
  show ?thesis
    unfolding expandTask_def expandTask_before_try_def n q
    using t(1) i assms(4) by simp
qed


lemma sample_arguments:
  "(None :: json option) \<noteq> Some JNull" "sample_task \<noteq> None" "sample_task \<noteq> Some JNull"
  "stringify_sample sample_task = Inr (Some ''{}'')"
  by (simp_all add: sample_task_def stringify_sample_def)

section \<open>Replies without a JSON region\<close>




section \<open>Error translation\<close>





lemma rewrap_Inl: "rewrap body = Inl e \<Longrightarrow> \<exists>raw. body = Inl raw \<and> e = new_Error (handleError raw)"
  by (cases body) (auto simp: rewrap_def)







section \<open>Availability probe\<close>

text \<open>
  Claim C8. \<open>isAvailable\<close> never throws: in every provider state and for every outcome
  of the vendor request it returns a boolean. It returns \<open>true\<close> exactly when the
  configuration has a truthy \<open>apiKey\<close>, the client exists and the request succeeded; a
  rejected request and a missing key both give \<open>false\<close>. The base class's \<open>isAvailable\<close>
  returns a boolean as well.
\<close>

theorem isAvailable_never_throws:
  "(\<exists>b. isAvailable this reply = Inr b)
   \<and> (isAvailable this reply = Inr True \<longleftrightarrow>
        (\<exists>cfg c r. config this = Some cfg \<and> truthy (get_property cfg ''apiKey'')
                 \<and> client this = Some c \<and> reply = Inr r))
   \<and> (reply = Inl e \<longrightarrow> isAvailable this reply = Inr False)
   \<and> (\<not> truthy (case config this of None \<Rightarrow> None | Some cfg \<Rightarrow> get_property cfg ''apiKey'')
        \<longrightarrow> isAvailable this reply = Inr False)
   \<and> (\<exists>b. AIProvider_isAvailable = Inr b)"
  by (auto simp: isAvailable_def AIProvider_isAvailable_def messages_create_def truthy_def
      split: option.splits sum.splits)

theorem isAvailable_never_throws_witness:
  "isAvailable new_AnthropicProvider (text_reply ''ok'') = Inr False
   \<and> isAvailable initialized_provider (Inl overloaded_error) = Inr False
   \<and> isAvailable initialized_provider (text_reply ''ok'') = Inr True"
  using isAvailable_never_throws [of new_AnthropicProvider "text_reply ''ok''" overloaded_error]
    isAvailable_never_throws [of initialized_provider "Inl overloaded_error" overloaded_error]
    isAvailable_never_throws [of initialized_provider "text_reply ''ok''" overloaded_error]
  by (simp add: new_AnthropicProvider_def initialized_provider_def text_reply_def truthy_def
      get_property_def)


section \<open>Extraction of the JSON region\<close>

lemma isArray_iff: "isArray x \<longleftrightarrow> (\<exists>xs. x = Some (JArray xs))"
  by (cases x rule: isArray.cases) auto

lemma extract_array_Inr:
  assumes "content r = ContentBlock (Some txt) # blocks"
  shows "extract_array JSON_parse field r = Inr v \<longleftrightarrow>
     (\<exists>m parsed xs. match_json txt = Some m \<and> JSON_parse m = Inr parsed
        \<and> json_property parsed field = Inr (Some (JArray xs)) \<and> v = JArray xs)"
  using assms
  by (auto simp: extract_array_def content_match_def isArray_iff split: sum.splits option.splits)

lemma match_json_Some_iff:
  "match_json txt = Some m \<longleftrightarrow>
     (\<exists>a b c. txt = a @ CHR ''{'' # b @ CHR ''}'' # c \<and> CHR ''{'' \<notin> set a
        \<and> CHR ''}'' \<notin> set c \<and> m = CHR ''{'' # b @ ''}'')"
  using match_json_SomeD match_json_Some by blast

lemma rewrap_Inr: "rewrap body = Inr v \<longleftrightarrow> body = Inr v"
  by (cases body) (auto simp: rewrap_def)


text \<open>
  Claim C1, as amended. When the statements before the \<open>try\<close> have run and the vendor call
  returns a text, \<open>generateTasks\<close> returns a value exactly when the text from the first
  \<open>{\<close> to the last \<open>}\<close> (not the first balanced region) parses as JSON and the parsed
  value has an array in its \<open>tasks\<close> property, and the value returned is that array;
  otherwise it fails with a rewrapped error. \<open>expandTask\<close> does the same with \<open>subtasks\<close>.
\<close>

theorem greedy_region_extraction:
  assumes "options \<noteq> Some JNull" and "task \<noteq> None" and "task \<noteq> Some JNull"
    and "JSON_stringify task = Inr task_text"
    and "messages_create this reply = Inr r"
    and "content r = ContentBlock (Some txt) # blocks"
  shows "(generateTasks JSON_parse this options reply = Inr v \<longleftrightarrow>
           (\<exists>a b c parsed xs. txt = a @ CHR ''{'' # b @ CHR ''}'' # c
              \<and> CHR ''{'' \<notin> set a \<and> CHR ''}'' \<notin> set c
              \<and> JSON_parse (CHR ''{'' # b @ ''}'') = Inr parsed
              \<and> json_property parsed ''tasks'' = Inr (Some (JArray xs)) \<and> v = JArray xs))
       \<and> (expandTask JSON_parse JSON_stringify this task options reply = Inr v \<longleftrightarrow>
           (\<exists>a b c parsed xs. txt = a @ CHR ''{'' # b @ CHR ''}'' # c
              \<and> CHR ''{'' \<notin> set a \<and> CHR ''}'' \<notin> set c
              \<and> JSON_parse (CHR ''{'' # b @ ''}'') = Inr parsed
              \<and> json_property parsed ''subtasks'' = Inr (Some (JArray xs)) \<and> v = JArray xs))
       \<and> ((\<exists>v. generateTasks JSON_parse this options reply = Inr v)
            \<or> (\<exists>raw. generateTasks JSON_parse this options reply
                         = Inl (new_Error (handleError raw))))
       \<and> ((\<exists>v. expandTask JSON_parse JSON_stringify this task options reply = Inr v)
            \<or> (\<exists>raw. expandTask JSON_parse JSON_stringify this task options reply
                         = Inl (new_Error (handleError raw))))"
proof -
  have G: "generateTasks JSON_parse this options reply
             = rewrap (generateTasks_try JSON_parse this reply)"
    by (rule generateTasks_after_before_try [OF assms(1)])
  have E: "expandTask JSON_parse JSON_stringify this task options reply
             = rewrap (expandTask_try JSON_parse this reply)"
    by (rule expandTask_after_before_try [where JSON_stringify = JSON_stringify,
          OF assms(1,2,3,4)])
  have g: "generateTasks JSON_parse this options reply = Inr v
             \<longleftrightarrow> extract_array JSON_parse ''tasks'' r = Inr v"
    by (simp add: G generateTasks_try_def assms(5) rewrap_Inr)
  have e: "expandTask JSON_parse JSON_stringify this task options reply = Inr v
             \<longleftrightarrow> extract_array JSON_parse ''subtasks'' r = Inr v"
    by (simp add: E expandTask_try_def assms(5) rewrap_Inr)
  have x: "extract_array JSON_parse field r = Inr v \<longleftrightarrow>
           (\<exists>a b c parsed xs. txt = a @ CHR ''{'' # b @ CHR ''}'' # c
              \<and> CHR ''{'' \<notin> set a \<and> CHR ''}'' \<notin> set c
              \<and> JSON_parse (CHR ''{'' # b @ ''}'') = Inr parsed
              \<and> json_property parsed field = Inr (Some (JArray xs)) \<and> v = JArray xs)" for field
    unfolding extract_array_Inr [OF assms(6)] match_json_Some_iff by blast
  have t1: "(\<exists>v. generateTasks JSON_parse this options reply = Inr v)
            \<or> (\<exists>raw. generateTasks JSON_parse this options reply
                         = Inl (new_Error (handleError raw)))"
    unfolding G
    by (cases "rewrap (generateTasks_try JSON_parse this reply)") (auto dest: rewrap_Inl)
  have t2: "(\<exists>v. expandTask JSON_parse JSON_stringify this task options reply = Inr v)
            \<or> (\<exists>raw. expandTask JSON_parse JSON_stringify this task options reply
                         = Inl (new_Error (handleError raw)))"
    unfolding E
    by (cases "rewrap (expandTask_try JSON_parse this reply)") (auto dest: rewrap_Inl)
  show ?thesis
    using g e x t1 t2 by simp
qed

theorem greedy_region_extraction_witness:
  "(None :: json option) \<noteq> Some JNull \<and> sample_task \<noteq> None \<and> sample_task \<noteq> Some JNull
   \<and> stringify_sample sample_task = Inr (Some ''{}'')
   \<and> messages_create initialized_provider (text_reply reply_with_tasks)
     = Inr \<lparr>content = [ContentBlock (Some reply_with_tasks)]\<rparr>
   \<and> generateTasks parse_tasks_json initialized_provider None (text_reply reply_with_tasks)
       = Inr (JArray [])
   \<and> (\<exists>a b c parsed xs. reply_with_tasks = a @ CHR ''{'' # b @ CHR ''}'' # c
              \<and> CHR ''{'' \<notin> set a \<and> CHR ''}'' \<notin> set c
              \<and> parse_tasks_json (CHR ''{'' # b @ ''}'') = Inr parsed
              \<and> json_property parsed ''tasks'' = Inr (Some (JArray xs)) \<and> JArray [] = JArray xs)"
proof -
  have a: "messages_create initialized_provider (text_reply reply_with_tasks)
     = Inr \<lparr>content = [ContentBlock (Some reply_with_tasks)]\<rparr>"
    by (simp add: messages_create_def initialized_provider_def text_reply_def)
  have b: "content \<lparr>content = [ContentBlock (Some reply_with_tasks)]\<rparr>
      = ContentBlock (Some reply_with_tasks) # []"
    by simp
  have m: "match_json reply_with_tasks = Some tasks_json"
    by (simp add: match_json_def tasks_json_def reply_with_tasks_def)
  have c: "content_match \<lparr>content = [ContentBlock (Some reply_with_tasks)]\<rparr> = Inr (Some tasks_json)"
    by (simp add: content_match_def m)
  have x: "extract_array parse_tasks_json ''tasks'' \<lparr>content = [ContentBlock (Some reply_with_tasks)]\<rparr>
      = Inr (JArray [])"
    unfolding extract_array_def c by (simp add: parse_tasks_json_def)
  have g: "generateTasks parse_tasks_json initialized_provider None (text_reply reply_with_tasks)
       = Inr (JArray [])"
    unfolding generateTasks_after_before_try [OF sample_arguments(1)] generateTasks_try_def a
    by (simp add: x rewrap_def)
  show ?thesis
    using greedy_region_extraction [where JSON_stringify = stringify_sample
        and JSON_parse = parse_tasks_json and v = "JArray []", OF sample_arguments a b]
      sample_arguments a g
    by blast
qed


text \<open>
  Claim C1, as stated, fails: in \<open>{"tasks":[]} and }\<close> the first balanced region is
  \<open>{"tasks":[]}\<close>, which parses to an object with an array in \<open>tasks\<close>, but the source
  matches up to the last brace, the match does not parse, and \<open>generateTasks\<close> fails.
\<close>

theorem first_balanced_region_counterexample:
  "first_balanced_region reply_with_stray_brace = Some tasks_json
   \<and> parse_tasks_json tasks_json = Inr (JObject [(''tasks'', JArray [])])
   \<and> match_json reply_with_stray_brace = Some reply_with_stray_brace
   \<and> generateTasks parse_tasks_json initialized_provider None (text_reply reply_with_stray_brace)
       = Inl (new_Error ''Error communicating with Claude: Unexpected token'')"
proof -
  have f: "first_balanced_region reply_with_stray_brace = Some tasks_json"
    by (simp add: first_balanced_region_def tasks_json_def reply_with_stray_brace_def)
  have p: "parse_tasks_json tasks_json = Inr (JObject [(''tasks'', JArray [])])"
    by (simp add: parse_tasks_json_def)
  have m: "match_json reply_with_stray_brace = Some reply_with_stray_brace"
    by (simp add: match_json_def tasks_json_def reply_with_stray_brace_def)
  have n: "parse_tasks_json reply_with_stray_brace = Inl (new_Error ''Unexpected token'')"
    by (simp add: parse_tasks_json_def tasks_json_def reply_with_stray_brace_def)
  have h: "handleError (new_Error ''Unexpected token'')
      = ''Error communicating with Claude: Unexpected token''"
    by (simp add: handleError_def new_Error_def template_def toLowerCase_def toLowerCase_char_def)
  have g: "generateTasks parse_tasks_json initialized_provider None (text_reply reply_with_stray_brace)
       = Inl (new_Error ''Error communicating with Claude: Unexpected token'')"
    unfolding generateTasks_after_before_try [OF sample_arguments(1)]
    by (simp add: generateTasks_try_def messages_create_def initialized_provider_def text_reply_def
        extract_array_def content_match_def m n rewrap_def h)
  from f p m g show ?thesis by simp
qed

section \<open>The task identifier validator and its pattern\<close>

lemma star_digits: "w \<in> star {[c] | c. c \<in> set ''0123456789''} \<longleftrightarrow> list_all is_digit w"
proof
  assume "w \<in> star {[c] | c. c \<in> set ''0123456789''}"
  then show "list_all is_digit w"
    by induction (auto simp: is_digit_def)
next
  assume "list_all is_digit w"
  then show "w \<in> star {[c] | c. c \<in> set ''0123456789''}"
  proof (induction w)
    case Nil
    show ?case by (rule star_empty)
  next
    case (Cons c w)
    then have "[c] \<in> {[c] | c. c \<in> set ''0123456789''}" and "w \<in> star {[c] | c. c \<in> set ''0123456789''}"
      by (auto simp: is_digit_def)
    then have "[c] @ w \<in> star {[c] | c. c \<in> set ''0123456789''}"
      by (rule star_step)
    then show ?case by simp
  qed
qed

lemma lang_prefix: "s \<in> lang (Seq (Chars p) r) \<longleftrightarrow> (\<exists>n. s = p @ n \<and> n \<in> lang r)"
  by auto

lemma lang_class_then: "n \<in> lang (Seq (OneOf cs) r) \<longleftrightarrow> (\<exists>d ds. n = d # ds \<and> d \<in> set cs \<and> ds \<in> lang r)"
proof
  assume "n \<in> lang (Seq (OneOf cs) r)"
  then show "\<exists>d ds. n = d # ds \<and> d \<in> set cs \<and> ds \<in> lang r" by auto
next
  assume "\<exists>d ds. n = d # ds \<and> d \<in> set cs \<and> ds \<in> lang r"
  then obtain d ds where "n = [d] @ ds" "d \<in> set cs" "ds \<in> lang r" by auto
  then show "n \<in> lang (Seq (OneOf cs) r)" by (simp only: lang.simps mem_Collect_eq) blast
qed

lemma lang_alt_chars: "n \<in> lang (Alt (Chars p) r) \<longleftrightarrow> (n = p \<or> n \<in> lang r)"
  by auto

lemma lang_digits: "ds \<in> lang (Star (OneOf ''0123456789'')) \<longleftrightarrow> list_all is_digit ds"
  by (simp only: lang.simps star_digits)

lemma lang_task_id_regex:
  "s \<in> lang task_id_regex \<longleftrightarrow>
     (\<exists>n. s = ''TASK-'' @ n \<and> (n = ''0'' \<or> (\<exists>d ds. n = d # ds \<and> d \<in> set ''123456789'' \<and> list_all is_digit ds)))"
  unfolding task_id_regex_def
  by (simp only: lang_prefix lang_alt_chars lang_class_then lang_digits)

lemma take5_eq: "take 5 s = ''TASK-'' \<longleftrightarrow> (\<exists>n. s = ''TASK-'' @ n)"
proof
  assume "take 5 s = ''TASK-''"
  then have "s = ''TASK-'' @ drop 5 s"
    by (metis append_take_drop_id)
  then show "\<exists>n. s = ''TASK-'' @ n" ..
next
  assume "\<exists>n. s = ''TASK-'' @ n"
  then show "take 5 s = ''TASK-''" by auto
qed

lemma numeral_ok:
  "(case n of [] \<Rightarrow> False | d # ds \<Rightarrow> list_all is_digit (d # ds) \<and> (if d = CHR ''0'' then ds = [] else True))
   \<longleftrightarrow> (n = ''0'' \<or> (\<exists>d ds. n = d # ds \<and> d \<in> set ''123456789'' \<and> list_all is_digit ds))"
  by (cases n) (auto simp: is_digit_def)

lemma isValidTaskId_String:
  "isValidTaskId (String s) \<longleftrightarrow>
     (s \<in> lang task_id_regex \<and> 6 \<le> length s \<and> length s \<le> 12)"
proof (cases "take 5 s = ''TASK-''")
  case True
  then obtain n where n: "s = ''TASK-'' @ n" using take5_eq by blast
  then have d: "drop 5 s = n" by simp
  have l: "s \<in> lang task_id_regex \<longleftrightarrow>
      (n = ''0'' \<or> (\<exists>d ds. n = d # ds \<and> d \<in> set ''123456789'' \<and> list_all is_digit ds))"
    unfolding lang_task_id_regex n by (simp only: same_append_eq) blast
  show ?thesis
    unfolding isValidTaskId_def js_value.case d numeral_ok l using True by blast
next
  case False
  then have "s \<notin> lang task_id_regex"
    unfolding lang_task_id_regex using take5_eq by blast
  with False show ?thesis
    unfolding isValidTaskId_def js_value.case by blast
qed


text \<open>
  Claim C9. \<open>isValidTaskId\<close> is true exactly for the strings that match
  \<open>^TASK-(0|[1-9][0-9]*)$\<close> and have between 6 and 12 characters. It is false for
  \<open>null\<close>, \<open>undefined\<close> and every other value that is not a string, for the empty string,
  for a string that does not begin with \<open>TASK-\<close> (wrong case, missing separator), for a
  string with a character other than a digit after the prefix (extra separator, letter,
  whitespace), and for a length outside the bound.
\<close>

theorem isValidTaskId_regex:
  "(isValidTaskId input \<longleftrightarrow>
     (\<exists>s. input = String s \<and> s \<in> lang task_id_regex \<and> 6 \<le> length s \<and> length s \<le> 12))
   \<and> \<not> isValidTaskId Null \<and> \<not> isValidTaskId Undefined \<and> \<not> isValidTaskId (Boolean b)
   \<and> \<not> isValidTaskId (Number n) \<and> \<not> isValidTaskId (Object obj)
   \<and> \<not> isValidTaskId (String [])
   \<and> (take 5 s \<noteq> ''TASK-'' \<longrightarrow> \<not> isValidTaskId (String s))
   \<and> (\<not> list_all is_digit (drop 5 s) \<longrightarrow> \<not> isValidTaskId (String s))
   \<and> (length s < 6 \<or> 12 < length s \<longrightarrow> \<not> isValidTaskId (String s))"
proof -
  have r: "isValidTaskId input \<longleftrightarrow>
     (\<exists>s. input = String s \<and> s \<in> lang task_id_regex \<and> 6 \<le> length s \<and> length s \<le> 12)"
  proof (cases input)
    case (String s)
    then show ?thesis using isValidTaskId_String [of s] by simp
  qed (simp_all add: isValidTaskId_def)
  have d: "\<not> list_all is_digit (drop 5 s) \<longrightarrow> \<not> isValidTaskId (String s)"
    by (auto simp: isValidTaskId_def split: list.splits)
  have o: "\<not> isValidTaskId Null \<and> \<not> isValidTaskId Undefined \<and> \<not> isValidTaskId (Boolean b)
   \<and> \<not> isValidTaskId (Number n) \<and> \<not> isValidTaskId (Object obj)
   \<and> \<not> isValidTaskId (String [])
   \<and> (take 5 s \<noteq> ''TASK-'' \<longrightarrow> \<not> isValidTaskId (String s))
   \<and> (length s < 6 \<or> 12 < length s \<longrightarrow> \<not> isValidTaskId (String s))"
    by (auto simp: isValidTaskId_def)
  from r d o show ?thesis by blast
qed

theorem isValidTaskId_regex_witness:
  "isValidTaskId (String ''TASK-42'') \<and> ''TASK-42'' \<in> lang task_id_regex
   \<and> take 5 ''task-1'' \<noteq> ''TASK-'' \<and> \<not> isValidTaskId (String ''task-1'')
   \<and> \<not> list_all is_digit (drop 5 ''TASK- 1'') \<and> \<not> isValidTaskId (String ''TASK- 1'')
   \<and> 12 < length ''TASK-12345678901'' \<and> \<not> isValidTaskId (String ''TASK-12345678901'')"
proof -
  have v: "isValidTaskId (String ''TASK-42'')"
    by (simp add: isValidTaskId_def is_digit_def)
  have a: "take 5 ''task-1'' \<noteq> ''TASK-''" by simp
  have b: "\<not> list_all is_digit (drop 5 ''TASK- 1'')" by (simp add: is_digit_def)
  have c: "12 < length ''TASK-12345678901''" by simp
  show ?thesis
    using isValidTaskId_regex [of "String ''TASK-42''" False 0 Map.empty "''task-1''"]
      isValidTaskId_regex [of Null False 0 Map.empty "''TASK- 1''"]
      isValidTaskId_regex [of Null False 0 Map.empty "''TASK-12345678901''"]
      v a b c
    by blast
qed

section \<open>The outcomes of getProvider\<close>

lemma getProvider_try_cases:
  assumes "getProvider_try h t cfg s = (r, s')"
  shows "(\<exists>e. r = Inl e \<and> (instances s' = instances s \<or> instances s' = AList.delete t (instances s)))
       \<or> (\<exists>p w. r = Inr p \<and> map_of (instances s) t = Some p
              \<and> instance_isAvailable h p (world s) = (Inr True, w)
              \<and> s' = s\<lparr>world := w\<rparr>)
       \<or> (\<exists>p s1 cls w1 w2 w3 w4.
              r = Inr p
              \<and> probe_cached h t s = (Inr None, s1)
              \<and> import_module h (''./'' @ t @ ''/'' @ t @ ''Provider.js'') (world s1) = (Inr cls, w1)
              \<and> new_instance h cls w1 = (Inr p, w2)
              \<and> instance_initialize h p cfg w2 = (Inr (), w3)
              \<and> instance_isAvailable h p w3 = (Inr True, w4)
              \<and> s' = s1\<lparr>instances := AList.update t p (instances s1), world := w4\<rparr>)"
  using assms
  unfolding getProvider_try_def probe_cached_def load_provider_class_def create_provider_def
  by (auto split: sum.splits option.splits prod.splits if_splits)

lemma getProvider_cases:
  assumes "getProvider h t cfg s = (r, s')"
  shows "(\<exists>e. r = Inl e \<and> (instances s' = instances s \<or> instances s' = AList.delete t (instances s)))
       \<or> (\<exists>p w. r = Inr p \<and> map_of (instances s) t = Some p
              \<and> instance_isAvailable h p (world s) = (Inr True, w)
              \<and> s' = s\<lparr>world := w\<rparr>)
       \<or> (\<exists>p s1 cls w1 w2 w3 w4.
              r = Inr p
              \<and> probe_cached h t s = (Inr None, s1)
              \<and> import_module h (''./'' @ t @ ''/'' @ t @ ''Provider.js'') (world s1) = (Inr cls, w1)
              \<and> new_instance h cls w1 = (Inr p, w2)
              \<and> instance_initialize h p cfg w2 = (Inr (), w3)
              \<and> instance_isAvailable h p w3 = (Inr True, w4)
              \<and> s' = s1\<lparr>instances := AList.update t p (instances s1), world := w4\<rparr>)"
proof -
  obtain r0 where t: "getProvider_try h t cfg s = (r0, s')"
    and r: "r = (case r0 of Inl e \<Rightarrow>
                  if \<not> instanceof_ProviderError e
                  then Inl (ProviderError (''Unexpected error creating '' @ t @ '' provider: '' @ template (message e)) ''UNKNOWN_ERROR'')
                  else Inl e
                | Inr p \<Rightarrow> Inr p)"
    using assms unfolding getProvider_def
    by (auto split: prod.splits sum.splits if_splits)
  from getProvider_try_cases [OF t] r show ?thesis
    by (cases r0) auto
qed

lemma probe_cached_instances:
  "probe_cached h t s = (r, s1) \<Longrightarrow>
     instances s1 = instances s \<or> instances s1 = AList.delete t (instances s)"
  unfolding probe_cached_def
  by (auto split: option.splits prod.splits sum.splits if_splits)

section \<open>One cache entry per type\<close>

lemma getProvider_instances:
  assumes "getProvider h t cfg s = (r, s')"
  shows "instances s' = instances s \<or> instances s' = AList.delete t (instances s)
       \<or> (\<exists>p. instances s' = AList.update t p (instances s))
       \<or> (\<exists>p. instances s' = AList.update t p (AList.delete t (instances s)))"
  using getProvider_cases [OF assms] probe_cached_instances [of h t s]
  by (elim disjE exE conjE) auto

lemma getProvider_distinct:
  assumes "getProvider h t cfg s = (r, s')" "distinct (map fst (instances s))"
  shows "distinct (map fst (instances s'))"
  using getProvider_instances [OF assms(1)] assms(2)
  by (auto simp: distinct_update distinct_delete)

lemma try_each_distinct:
  "try_each h cfgs ts s = (r, s') \<Longrightarrow> distinct (map fst (instances s))
     \<Longrightarrow> distinct (map fst (instances s'))"
proof (induction ts arbitrary: s)
  case Nil
  then show ?case by simp
next
  case (Cons t ts)
  obtain r1 s1 where g: "getProvider h t (Some (provider_config h cfgs t)) s = (r1, s1)"
    by (cases "getProvider h t (Some (provider_config h cfgs t)) s")
  have d: "distinct (map fst (instances s1))"
    using getProvider_distinct [OF g Cons.prems(2)] .
  show ?case
  proof (cases r1)
    case (Inl e)
    with Cons.prems(1) g have
      "try_each h cfgs ts (console_warn (''Failed to initialize '' @ t @ '' provider: '' @ template (message e)) s1) = (r, s')"
      by simp
    moreover have "distinct (map fst (instances (console_warn (''Failed to initialize '' @ t @ '' provider: '' @ template (message e)) s1)))"
      using d by (simp add: console_warn_def)
    ultimately show ?thesis by (rule Cons.IH)
  next
    case (Inr p)
    with Cons.prems(1) g d show ?thesis by simp
  qed
qed

lemma collect_providers_distinct:
  "collect_providers h cfgs ts ps s = (r, s') \<Longrightarrow> distinct (map fst (instances s))
     \<Longrightarrow> distinct (map fst (instances s'))"
proof (induction ts arbitrary: s ps)
  case Nil
  then show ?case by simp
next
  case (Cons t ts)
  obtain r1 s1 where g: "getProvider h t (Some (provider_config h cfgs t)) s = (r1, s1)"
    by (cases "getProvider h t (Some (provider_config h cfgs t)) s")
  have d: "distinct (map fst (instances s1))"
    using getProvider_distinct [OF g Cons.prems(2)] .
  show ?case
  proof (cases r1)
    case (Inl e)
    with Cons.prems(1) g have
      "collect_providers h cfgs ts ps (console_warn (''Failed to initialize '' @ t @ '' provider: '' @ template (message e)) s1) = (r, s')"
      by simp
    moreover have "distinct (map fst (instances (console_warn (''Failed to initialize '' @ t @ '' provider: '' @ template (message e)) s1)))"
      using d by (simp add: console_warn_def)
    ultimately show ?thesis by (rule Cons.IH)
  next
    case (Inr p)
    with Cons.prems(1) g have "collect_providers h cfgs ts (AList.update t p ps) s1 = (r, s')"
      by simp
    then show ?thesis using d by (rule Cons.IH)
  qed
qed

lemma getBestProvider_distinct:
  assumes "getBestProvider h cfgs s = (r, s')" "distinct (map fst (instances s))"
  shows "distinct (map fst (instances s'))"
proof (cases "truthy (process_env h ''AI_PROVIDER'')")
  case False
  then have "try_each h cfgs [''anthropic'', ''google''] s = (r, s')"
    using assms(1) unfolding getBestProvider_def truthy_def by (auto split: option.splits)
  then show ?thesis using assms(2) by (rule try_each_distinct)
next
  case True
  then obtain pt where pt: "process_env h ''AI_PROVIDER'' = Some pt" "pt \<noteq> []"
    unfolding truthy_def by (auto split: option.splits)
  obtain r1 s1 where g: "getProvider h pt (Some (provider_config h cfgs pt)) s = (r1, s1)"
    by (cases "getProvider h pt (Some (provider_config h cfgs pt)) s")
  have d: "distinct (map fst (instances s1))"
    using getProvider_distinct [OF g assms(2)] .
  show ?thesis
  proof (cases r1)
    case (Inl e)
    with assms(1) g pt have
      "try_each h cfgs [''anthropic'', ''google'']
         (console_warn (''Failed to initialize preferred provider ('' @ pt @ ''): '' @ template (message e)) s1) = (r, s')"
      unfolding getBestProvider_def by simp
    moreover have "distinct (map fst (instances (console_warn (''Failed to initialize preferred provider ('' @ pt @ ''): '' @ template (message e)) s1)))"
      using d by (simp add: console_warn_def)
    ultimately show ?thesis by (rule try_each_distinct)
  next
    case (Inr p)
    with assms(1) g pt d show ?thesis unfolding getBestProvider_def by simp
  qed
qed

lemma reachable_distinct: "reachable h s \<Longrightarrow> distinct (map fst (instances s))"
proof (induction rule: reachable.induct)
  case (reachable_initial w)
  show ?case by (simp add: initial_factory_def)
next
  case (reachable_getProvider s t cfg r s')
  then show ?case using getProvider_distinct by blast
next
  case (reachable_getBestProvider s cfgs r s')
  then show ?case using getBestProvider_distinct by blast
next
  case (reachable_getAllProviders s cfgs ps s')
  then show ?case
    unfolding getAllProviders_def
    by (auto split: prod.splits dest: collect_providers_distinct)
next
  case (reachable_clearInstances s)
  show ?case by (simp add: clearInstances_def)
next
  case (reachable_world s w)
  then show ?case by simp
qed

lemma distinct_keys_at_most_one:
  "distinct (map fst xs) \<Longrightarrow> length (filter (\<lambda>e. fst e = k) xs) \<le> 1"
proof (induction xs)
  case Nil
  show ?case by simp
next
  case (Cons x xs)
  show ?case
  proof (cases "fst x = k")
    case True
    with Cons.prems have "k \<notin> fst ` set xs" by auto
    then have "filter (\<lambda>e. fst e = k) xs = []"
      by (auto simp: filter_empty_conv)
    with True show ?thesis by simp
  next
    case False
    with Cons show ?thesis by simp
  qed
qed

lemma getProvider_success_validated:
  assumes "getProvider h t cfg s = (Inr p, s1)"
  shows "validateProviderType t = Inr () \<and> validateConfig cfg t = Inr ()"
  using assms unfolding getProvider_def getProvider_try_def
  by (auto split: sum.splits prod.splits if_splits)

lemma getProvider_success_cached:
  assumes "getProvider h t cfg s = (Inr p, s1)"
  shows "map_of (instances s1) t = Some p"
  using getProvider_cases [OF assms]
  by (auto simp: update_conv')

lemma getProvider_cached_live:
  assumes "validateProviderType t = Inr ()" "validateConfig cfg t = Inr ()"
    and "map_of (instances s) t = Some p"
    and "instance_isAvailable h p (world s) = (Inr True, w')"
  shows "getProvider h t cfg s = (Inr p, s\<lparr>world := w'\<rparr>)"
  using assms by (simp add: getProvider_def getProvider_try_def probe_cached_def)

lemmas factory_eval =
  getProvider_def getProvider_try_def validateProviderType_def validateConfig_def
  SUPPORTED_PROVIDERS_def get_property_def truthy_def probe_cached_def
  initial_factory_def load_provider_class_def create_provider_def host_with_def
  new_Error_def template_def ProviderError_def console_warn_def provider_config_def
  toUpperCase_def toUpperCase_char_def

lemma sample_first_call:
  "getProvider sample_host ''anthropic'' (Some sample_config) (initial_factory 0)
     = (Inr 0, \<lparr>instances = [(''anthropic'', 0)], console = [], world = 1\<rparr>)"
  by (simp add: factory_eval sample_host_def sample_config_def)

lemma sample_google_call:
  "getProvider sample_host ''google'' (Some sample_config) (initial_factory 0)
     = (Inl (ProviderError ''Failed to load google provider module: Cannot find module'' ''MODULE_LOAD_ERROR''),
        initial_factory 0)"
  by (simp add: factory_eval sample_host_def sample_config_def)

section \<open>Validation in the factory\<close>

text \<open>
  Claim C2. For every host, configuration and state, \<open>getProvider\<close> with a type outside
  the supported list fails with code \<open>INVALID_PROVIDER\<close>, whatever the configuration holds;
  with a supported type and a configuration that is missing or has no truthy \<open>apiKey\<close> it
  fails with code \<open>INVALID_CONFIG\<close>. In both cases the state, the world included, is
  returned as it was and the result does not depend on the host: no module was loaded, no
  provider constructed and no request sent.
\<close>

theorem getProvider_validation:
  "(t \<notin> set SUPPORTED_PROVIDERS \<longrightarrow>
      getProvider h t cfg s =
        (Inl (ProviderError
               (''Provider type '' @ [CHR 0x27] @ t @ [CHR 0x27]
                  @ '' not supported. Must be one of: anthropic, google'')
               ''INVALID_PROVIDER''),
         s))
   \<and> (t \<in> set SUPPORTED_PROVIDERS
        \<and> \<not> truthy (case cfg of None \<Rightarrow> None | Some obj \<Rightarrow> get_property obj ''apiKey'') \<longrightarrow>
      getProvider h t cfg s =
        (Inl (ProviderError (''API key is required for '' @ t @ '' provider'') ''INVALID_CONFIG''),
         s))"
  by (simp add: getProvider_def getProvider_try_def validateProviderType_def validateConfig_def
      ProviderError_def SUPPORTED_PROVIDERS_def)

theorem getProvider_validation_witness:
  "''openai'' \<notin> set SUPPORTED_PROVIDERS
   \<and> getProvider sample_host ''openai'' (Some sample_config) (initial_factory 0) =
        (Inl (ProviderError
               (''Provider type '' @ [CHR 0x27] @ ''openai'' @ [CHR 0x27]
                  @ '' not supported. Must be one of: anthropic, google'')
               ''INVALID_PROVIDER''),
         initial_factory 0)
   \<and> ''anthropic'' \<in> set SUPPORTED_PROVIDERS
   \<and> \<not> truthy (case Some (Map.empty :: js_object) of None \<Rightarrow> None | Some obj \<Rightarrow> get_property obj ''apiKey'')
   \<and> getProvider sample_host ''anthropic'' (Some Map.empty) (initial_factory 0) =
        (Inl (ProviderError ''API key is required for anthropic provider'' ''INVALID_CONFIG''),
         initial_factory 0)"
  using getProvider_validation [of "''openai''" sample_host "Some sample_config" "initial_factory 0"]
    getProvider_validation [of "''anthropic''" sample_host "Some Map.empty" "initial_factory 0"]
  by (simp add: SUPPORTED_PROVIDERS_def truthy_def get_property_def)

section \<open>Reuse of the cached instance\<close>

text \<open>
  Claim C3. In every reachable state the cache holds at most one entry per provider type.
  When a call of \<open>getProvider\<close> has returned an instance and, at the next call with the
  same type and configuration, the probe of that instance succeeds, the next call returns
  the identical instance and leaves the cache as it is. More generally a call with a
  supported type and a configuration that has a key returns the instance the cache holds
  for the type whenever the probe of that instance succeeds.
\<close>

theorem cached_instance_identity:
  assumes "reachable h s"
  shows "(\<forall>t. length (filter (\<lambda>e. fst e = t) (instances s)) \<le> 1)
       \<and> (\<forall>t cfg p s1 w w'.
            getProvider h t cfg s = (Inr p, s1) \<and> instance_isAvailable h p w = (Inr True, w')
            \<longrightarrow> getProvider h t cfg (s1\<lparr>world := w\<rparr>) = (Inr p, s1\<lparr>world := w'\<rparr>))
       \<and> (\<forall>t cfg p w'.
            t \<in> set SUPPORTED_PROVIDERS
            \<and> truthy (case cfg of None \<Rightarrow> None | Some obj \<Rightarrow> get_property obj ''apiKey'')
            \<and> map_of (instances s) t = Some p
            \<and> instance_isAvailable h p (world s) = (Inr True, w')
            \<longrightarrow> getProvider h t cfg s = (Inr p, s\<lparr>world := w'\<rparr>))"
proof -
  have one: "\<forall>t. length (filter (\<lambda>e. fst e = t) (instances s)) \<le> 1"
    using distinct_keys_at_most_one [OF reachable_distinct [OF assms]] by simp
  have again: "getProvider h t cfg (s1\<lparr>world := w\<rparr>) = (Inr p, s1\<lparr>world := w'\<rparr>)"
    if a: "getProvider h t cfg s = (Inr p, s1) \<and> instance_isAvailable h p w = (Inr True, w')"
    for t cfg p s1 w w'
  proof -
    have v: "validateProviderType t = Inr ()" "validateConfig cfg t = Inr ()"
      using a getProvider_success_validated by blast+
    have m: "map_of (instances (s1\<lparr>world := w\<rparr>)) t = Some p"
      using a getProvider_success_cached by fastforce
    have i: "instance_isAvailable h p (world (s1\<lparr>world := w\<rparr>)) = (Inr True, w')"
      using a by simp
    show ?thesis
      using getProvider_cached_live [OF v m i] by simp
  qed
  have cached: "getProvider h t cfg s = (Inr p, s\<lparr>world := w'\<rparr>)"
    if a: "t \<in> set SUPPORTED_PROVIDERS
            \<and> truthy (case cfg of None \<Rightarrow> None | Some obj \<Rightarrow> get_property obj ''apiKey'')
            \<and> map_of (instances s) t = Some p
            \<and> instance_isAvailable h p (world s) = (Inr True, w')"
    for t cfg p w'
  proof -
    have v: "validateProviderType t = Inr ()" "validateConfig cfg t = Inr ()"
      using a by (simp_all add: validateProviderType_def validateConfig_def)
    from a have m: "map_of (instances s) t = Some p"
      and i: "instance_isAvailable h p (world s) = (Inr True, w')"
      by simp_all
    show ?thesis
      by (rule getProvider_cached_live [OF v m i])
  qed
  from one again cached show ?thesis by blast
qed

theorem cached_instance_identity_witness:
  "reachable sample_host (initial_factory 0)
   \<and> getProvider sample_host ''anthropic'' (Some sample_config) (initial_factory 0)
       = (Inr 0, \<lparr>instances = [(''anthropic'', 0)], console = [], world = 1\<rparr>)
   \<and> instance_isAvailable sample_host 0 5 = (Inr True, 5)
   \<and> getProvider sample_host ''anthropic'' (Some sample_config)
        \<lparr>instances = [(''anthropic'', 0)], console = [], world = 5\<rparr>
       = (Inr 0, \<lparr>instances = [(''anthropic'', 0)], console = [], world = 5\<rparr>)"
proof -
  have r: "reachable sample_host (initial_factory 0)"
    by (rule reachable_initial)
  have i: "instance_isAvailable sample_host 0 5 = (Inr True, 5)"
    by (simp add: sample_host_def host_with_def)
  have "getProvider sample_host ''anthropic'' (Some sample_config)
          (\<lparr>instances = [(''anthropic'', 0)], console = [], world = 1\<rparr>\<lparr>world := 5\<rparr>)
        = (Inr 0, \<lparr>instances = [(''anthropic'', 0)], console = [], world = 1\<rparr>\<lparr>world := 5\<rparr>)"
    using cached_instance_identity [OF r] sample_first_call i by blast
  with r i sample_first_call show ?thesis by simp
qed

section \<open>What enters the cache\<close>

text \<open>
  Claim C10. A call of \<open>getProvider\<close> that throws adds nothing to the cache: the cache is
  as before, or the stale entry of the type has been removed. An entry that is in the cache
  after a call and was not there before is the entry of the requested type, holds the
  instance the call returned, and that instance was constructed from the loaded module,
  then initialized with the supplied configuration without error, then probed with the
  answer \<open>true\<close>, the cache being written right after the probe.
\<close>

theorem cache_holds_only_probed_instances:
  assumes "getProvider h t cfg s = (r, s')"
  shows "(\<forall>e. r = Inl e \<longrightarrow>
            instances s' = instances s \<or> instances s' = AList.delete t (instances s))
       \<and> (\<forall>k q. map_of (instances s') k = Some q \<and> map_of (instances s) k \<noteq> Some q \<longrightarrow>
            k = t \<and> r = Inr q
            \<and> (\<exists>cls w0 w1 w2 w3.
                  import_module h (''./'' @ t @ ''/'' @ t @ ''Provider.js'') w0 = (Inr cls, w1)
                  \<and> new_instance h cls w1 = (Inr q, w2)
                  \<and> instance_initialize h q cfg w2 = (Inr (), w3)
                  \<and> instance_isAvailable h q w3 = (Inr True, world s')))"
proof (rule conjI)
  show "\<forall>e. r = Inl e \<longrightarrow>
            instances s' = instances s \<or> instances s' = AList.delete t (instances s)"
    using getProvider_cases [OF assms] by auto
next
  show "\<forall>k q. map_of (instances s') k = Some q \<and> map_of (instances s) k \<noteq> Some q \<longrightarrow>
            k = t \<and> r = Inr q
            \<and> (\<exists>cls w0 w1 w2 w3.
                  import_module h (''./'' @ t @ ''/'' @ t @ ''Provider.js'') w0 = (Inr cls, w1)
                  \<and> new_instance h cls w1 = (Inr q, w2)
                  \<and> instance_initialize h q cfg w2 = (Inr (), w3)
                  \<and> instance_isAvailable h q w3 = (Inr True, world s'))"
  proof (intro allI impI)
  fix k q
  assume n: "map_of (instances s') k = Some q \<and> map_of (instances s) k \<noteq> Some q"
  have del: "map_of (AList.delete t (instances s)) k = Some q \<Longrightarrow> map_of (instances s) k = Some q"
    by (simp add: delete_conv' split: if_splits)
  consider (err) e where "r = Inl e"
      "instances s' = instances s \<or> instances s' = AList.delete t (instances s)"
    | (hit) p w where "r = Inr p" "s' = s\<lparr>world := w\<rparr>"
    | (fresh) p s1 cls w1 w2 w3 w4 where "r = Inr p"
        "probe_cached h t s = (Inr None, s1)"
        "import_module h (''./'' @ t @ ''/'' @ t @ ''Provider.js'') (world s1) = (Inr cls, w1)"
        "new_instance h cls w1 = (Inr p, w2)"
        "instance_initialize h p cfg w2 = (Inr (), w3)"
        "instance_isAvailable h p w3 = (Inr True, w4)"
        "s' = s1\<lparr>instances := AList.update t p (instances s1), world := w4\<rparr>"
    using getProvider_cases [OF assms] by blast
  then show "k = t \<and> r = Inr q
            \<and> (\<exists>cls w0 w1 w2 w3.
                  import_module h (''./'' @ t @ ''/'' @ t @ ''Provider.js'') w0 = (Inr cls, w1)
                  \<and> new_instance h cls w1 = (Inr q, w2)
                  \<and> instance_initialize h q cfg w2 = (Inr (), w3)
                  \<and> instance_isAvailable h q w3 = (Inr True, world s'))"
  proof cases
    case err
    with n del show ?thesis by auto
  next
    case hit
    with n show ?thesis by auto
  next
    case fresh
    have s1: "instances s1 = instances s \<or> instances s1 = AList.delete t (instances s)"
      using probe_cached_instances [OF fresh(2)] .
    have kt: "k = t"
    proof (rule ccontr)
      assume "k \<noteq> t"
      then have "map_of (instances s1) k = Some q"
        using n fresh(7) by (simp add: update_conv')
      then have "map_of (instances s) k = Some q"
        using s1 del by auto
      with n show False by simp
    qed
    then have qp: "q = p"
      using n fresh(7) by (simp add: update_conv')
    have w: "world s' = w4" using fresh(7) by simp
    show ?thesis
      using kt qp fresh(1,3,4,5,6) w by blast
  qed
qed
qed

theorem cache_holds_only_probed_instances_witness:
  "getProvider sample_host ''anthropic'' (Some sample_config) (initial_factory 0)
     = (Inr 0, \<lparr>instances = [(''anthropic'', 0)], console = [], world = 1\<rparr>)
   \<and> (\<exists>cls w0 w1 w2 w3.
         import_module sample_host ''./anthropic/anthropicProvider.js'' w0 = (Inr cls, w1)
         \<and> new_instance sample_host cls w1 = (Inr 0, w2)
         \<and> instance_initialize sample_host 0 (Some sample_config) w2 = (Inr (), w3)
         \<and> instance_isAvailable sample_host 0 w3 = (Inr True, 1))
   \<and> getProvider sample_host ''google'' (Some sample_config) (initial_factory 0)
     = (Inl (ProviderError ''Failed to load google provider module: Cannot find module'' ''MODULE_LOAD_ERROR''),
        initial_factory 0)
   \<and> instances (initial_factory (0::nat)) = []"
proof -
  have m: "map_of (instances \<lparr>instances = [(''anthropic'', 0)], console = [], world = 1::nat\<rparr>) ''anthropic'' = Some (0::nat)
      \<and> map_of (instances (initial_factory (0::nat))) ''anthropic'' \<noteq> Some (0::nat)"
    by (simp add: initial_factory_def)
  have "\<exists>cls w0 w1 w2 w3.
         import_module sample_host (''./'' @ ''anthropic'' @ ''/'' @ ''anthropic'' @ ''Provider.js'') w0 = (Inr cls, w1)
         \<and> new_instance sample_host cls w1 = (Inr 0, w2)
         \<and> instance_initialize sample_host 0 (Some sample_config) w2 = (Inr (), w3)
         \<and> instance_isAvailable sample_host 0 w3
             = (Inr True, world \<lparr>instances = [(''anthropic'', 0)], console = [], world = 1::nat\<rparr>)"
    using cache_holds_only_probed_instances [OF sample_first_call] m by blast
  then have e: "\<exists>cls w0 w1 w2 w3.
         import_module sample_host ''./anthropic/anthropicProvider.js'' w0 = (Inr cls, w1)
         \<and> new_instance sample_host cls w1 = (Inr 0, w2)
         \<and> instance_initialize sample_host 0 (Some sample_config) w2 = (Inr (), w3)
         \<and> instance_isAvailable sample_host 0 w3 = (Inr True, 1)"
    by simp
  show ?thesis
    using e sample_first_call sample_google_call by (simp add: initial_factory_def)
qed

section \<open>Selection among providers\<close>







lemma getProvider_invalid_config:
  assumes "\<not> truthy (get_property cfg ''apiKey'')" "t \<in> set SUPPORTED_PROVIDERS"
  shows "getProvider h t (Some cfg) s =
           (Inl (ProviderError (''API key is required for '' @ t @ '' provider'') ''INVALID_CONFIG''), s)"
  using assms
  by (simp add: getProvider_def getProvider_try_def validateProviderType_def validateConfig_def
      ProviderError_def)

section \<open>Collecting all providers\<close>

text \<open>
  Claim C7. \<open>getAllProviders\<close> never throws. It calls \<open>getProvider\<close> for \<open>anthropic\<close>
  and then for \<open>google\<close>, whatever the first call gave; each success becomes an entry
  of the returned map under its type, each failure is logged with \<open>console.warn\<close> and left
  out. When no type has a truthy \<open>apiKey\<close> the map is empty, two warnings are logged and
  the cache and the world are untouched.
\<close>

theorem getAllProviders_collects:
  "(\<exists>providers s'. getAllProviders h cfgs s = (Inr providers, s'))
   \<and> (getProvider h ''anthropic'' (Some (provider_config h cfgs ''anthropic'')) s = (ra, sa)
        \<and> getProvider h ''google'' (Some (provider_config h cfgs ''google''))
             (after_attempt ''anthropic'' ra sa) = (rg, sg)
      \<longrightarrow> getAllProviders h cfgs s =
            (Inr (collected ''anthropic'' ra @ collected ''google'' rg),
             after_attempt ''google'' rg sg))
   \<and> ((\<forall>t \<in> set SUPPORTED_PROVIDERS.
          \<not> truthy (get_property (provider_config h cfgs t) ''apiKey''))
      \<longrightarrow> (\<exists>s'. getAllProviders h cfgs s = (Inr [], s')
                \<and> instances s' = instances s \<and> world s' = world s
                \<and> length (console s') = length (console s) + 2))"
proof -
  have a: "\<exists>providers s'. getAllProviders h cfgs s = (Inr providers, s')"
    unfolding getAllProviders_def by (auto split: prod.splits)
  have b: "getAllProviders h cfgs s =
            (Inr (collected ''anthropic'' ra @ collected ''google'' rg),
             after_attempt ''google'' rg sg)"
    if "getProvider h ''anthropic'' (Some (provider_config h cfgs ''anthropic'')) s = (ra, sa)"
      and "getProvider h ''google'' (Some (provider_config h cfgs ''google''))
             (after_attempt ''anthropic'' ra sa) = (rg, sg)"
    using that
    unfolding getAllProviders_def SUPPORTED_PROVIDERS_def after_attempt_def collected_def
    by (cases ra; cases rg) simp_all
  have c: "\<exists>s'. getAllProviders h cfgs s = (Inr [], s')
                \<and> instances s' = instances s \<and> world s' = world s
                \<and> length (console s') = length (console s) + 2"
    if n: "\<forall>t \<in> set SUPPORTED_PROVIDERS.
          \<not> truthy (get_property (provider_config h cfgs t) ''apiKey'')"
  proof -
    have na: "\<not> truthy (get_property (provider_config h cfgs ''anthropic'') ''apiKey'')"
      and ng: "\<not> truthy (get_property (provider_config h cfgs ''google'') ''apiKey'')"
      using n by (simp_all add: SUPPORTED_PROVIDERS_def)
    have sa: "''anthropic'' \<in> set SUPPORTED_PROVIDERS" and sg: "''google'' \<in> set SUPPORTED_PROVIDERS"
      by (simp_all add: SUPPORTED_PROVIDERS_def)
    show ?thesis
      unfolding getAllProviders_def SUPPORTED_PROVIDERS_def collect_providers.simps
        getProvider_invalid_config [OF na sa] getProvider_invalid_config [OF ng sg]
      by (simp add: console_warn_def)
  qed
  from a b c show ?thesis by blast
qed

theorem getAllProviders_collects_witness:
  "\<not> truthy (get_property (provider_config bare_host Map.empty ''anthropic'') ''apiKey'')
   \<and> \<not> truthy (get_property (provider_config bare_host Map.empty ''google'') ''apiKey'')
   \<and> getAllProviders bare_host Map.empty (initial_factory 0)
       = (Inr [],
          \<lparr>instances = [],
           console = [''Failed to initialize anthropic provider: API key is required for anthropic provider'',
                      ''Failed to initialize google provider: API key is required for google provider''],
           world = 0\<rparr>)"
proof -
  have n: "\<forall>t \<in> set SUPPORTED_PROVIDERS.
      \<not> truthy (get_property (provider_config bare_host Map.empty t) ''apiKey'')"
    by (simp add: SUPPORTED_PROVIDERS_def provider_config_def bare_host_def host_with_def
        get_property_def truthy_def)
  have a: "getProvider bare_host ''anthropic'' (Some (provider_config bare_host Map.empty ''anthropic''))
             (initial_factory 0)
           = (Inl (ProviderError ''API key is required for anthropic provider'' ''INVALID_CONFIG''),
              initial_factory 0)"
    by (simp add: factory_eval bare_host_def)
  have g: "getProvider bare_host ''google'' (Some (provider_config bare_host Map.empty ''google''))
             (after_attempt ''anthropic''
                (Inl (ProviderError ''API key is required for anthropic provider'' ''INVALID_CONFIG''))
                (initial_factory 0))
           = (Inl (ProviderError ''API key is required for google provider'' ''INVALID_CONFIG''),
              after_attempt ''anthropic''
                (Inl (ProviderError ''API key is required for anthropic provider'' ''INVALID_CONFIG''))
                (initial_factory 0))"
    by (simp add: factory_eval bare_host_def after_attempt_def)
  have "getAllProviders bare_host Map.empty (initial_factory 0)
      = (Inr (collected ''anthropic''
                (Inl (ProviderError ''API key is required for anthropic provider'' ''INVALID_CONFIG''))
              @ collected ''google''
                (Inl (ProviderError ''API key is required for google provider'' ''INVALID_CONFIG''))),
         after_attempt ''google''
           (Inl (ProviderError ''API key is required for google provider'' ''INVALID_CONFIG''))
           (after_attempt ''anthropic''
              (Inl (ProviderError ''API key is required for anthropic provider'' ''INVALID_CONFIG''))
              (initial_factory 0)))"
    using getAllProviders_collects [of bare_host Map.empty "initial_factory 0"] a g by blast
  then have r: "getAllProviders bare_host Map.empty (initial_factory 0)
       = (Inr [],
          \<lparr>instances = [],
           console = [''Failed to initialize anthropic provider: API key is required for anthropic provider'',
                      ''Failed to initialize google provider: API key is required for google provider''],
           world = 0\<rparr>)"
    by (simp add: collected_def after_attempt_def console_warn_def initial_factory_def
        ProviderError_def template_def)
  from n r show ?thesis
    by (simp add: SUPPORTED_PROVIDERS_def)
qed

end
